theory Spec2Isabelle
  imports Main
begin

section \<open>Values, documents and provider principals\<close>

text \<open>
  The session coordinator is the React component \<open>AuthProvider\<close> (with its helpers
  \<open>getErrorMessage\<close> and \<open>createUserDocument\<close>). It keeps two pieces of component
  state, \<open>user\<close> and \<open>isLoading\<close>, and talks to two external collaborators: the identity
  provider (\<open>signInWithEmailAndPassword\<close>, \<open>signOut\<close>, \<open>onAuthStateChanged\<close>) and the
  document store (\<open>getDoc\<close>, \<open>setDoc\<close> on the collection \<open>users\<close>).

  A JavaScript object is a finite map from property names to values. The application's
  \<open>User\<close> objects and the data of a stored document are such objects: the source builds
  them with an object literal and an object spread, and the cast \<open>as User\<close> does nothing at
  run time. A JavaScript string is a sequence of UTF-16 code units; every string of the
  source has code units below 256, so a code unit is a \<open>char\<close> here (\<open>CHR 0xE1\<close> is the
  letter a with acute accent, \<open>CHR 0xE3\<close> the letter a with tilde).
\<close>

datatype jsval = JStr string | JNull | JBool bool | JNum int

type_synonym fields = "string \<rightharpoonup> jsval"

text \<open>The provider's \<open>FirebaseUser\<close>: \<open>email\<close> and \<open>displayName\<close> are \<open>string | null\<close>.\<close>

record FirebaseUser =
  uid :: string
  email :: "string option"
  displayName :: "string option"

text \<open>
  A thrown value. \<open>Coded c\<close> is an \<open>Error\<close> instance that has a property \<open>code\<close> with
  value \<open>c\<close> (the provider's and the store's errors are of this kind); \<open>Uncoded m\<close> is any
  other thrown value, \<open>m\<close> its message (\<open>new Error(m)\<close> is \<open>Uncoded m\<close>).
\<close>

datatype thrown = Coded string | Uncoded string

section \<open>Error messages\<close>

text \<open>\<open>getErrorMessage\<close> switches on \<open>error.code\<close>; its argument here is that code.\<close>

definition getErrorMessage :: "string \<Rightarrow> string" where
  "getErrorMessage code =
    (if code = ''auth/invalid-email'' then ''Email inv'' @ [CHR 0xE1] @ ''lido''
     else if code = ''auth/user-disabled'' then ''Usu'' @ [CHR 0xE1] @ ''rio desativado''
     else if code = ''auth/user-not-found''
       then ''Usu'' @ [CHR 0xE1] @ ''rio n'' @ [CHR 0xE3] @ ''o encontrado''
     else if code = ''auth/wrong-password'' then ''Senha incorreta''
     else if code = ''auth/too-many-requests''
       then ''Muitas tentativas. Tente novamente mais tarde''
     else if code = ''auth/network-request-failed''
       then ''Erro de conex'' @ [CHR 0xE3] @ ''o. Verifique sua internet''
     else if code = ''auth/internal-error'' then ''Erro interno. Tente novamente''
     else ''Erro ao fazer login. Tente novamente'')"

section \<open>Profiles\<close>

text \<open>\<open>firebaseUser.email!\<close>: the non-null assertion is erased, a null email stays null.\<close>

definition emailValue :: "FirebaseUser \<Rightarrow> jsval" where
  "emailValue fu = (case email fu of None \<Rightarrow> JNull | Some e \<Rightarrow> JStr e)"

text \<open>\<open>firebaseUser.displayName || 'Usuario'\<close>: null and the empty string are falsy.\<close>

definition nameValue :: "FirebaseUser \<Rightarrow> jsval" where
  "nameValue fu =
    (case displayName fu of
       None \<Rightarrow> JStr (''Usu'' @ [CHR 0xE1] @ ''rio'')
     | Some n \<Rightarrow> if n = [] then JStr (''Usu'' @ [CHR 0xE1] @ ''rio'') else JStr n)"

text \<open>
  The object \<open>basicUser\<close> of \<open>createUserDocument\<close>; \<open>now\<close> is the value of
  \<open>new Date().toISOString()\<close>.
\<close>

definition basicUser :: "FirebaseUser \<Rightarrow> string \<Rightarrow> fields" where
  "basicUser fu now =
    [''id'' \<mapsto> JStr (uid fu),
     ''email'' \<mapsto> emailValue fu,
     ''name'' \<mapsto> nameValue fu,
     ''role'' \<mapsto> JStr ''usuario'',
     ''phone'' \<mapsto> JStr [],
     ''location'' \<mapsto> JStr [],
     ''createdAt'' \<mapsto> JStr now,
     ''status'' \<mapsto> JStr ''ativo'',
     ''password'' \<mapsto> JStr []]"

text \<open>
  The object literal \<open>{ id: firebaseUser.uid, email: firebaseUser.email!, ...userDoc.data() }\<close>.
  In an object literal a later property replaces an earlier one of the same name, so the
  spread of the stored data, which comes last, replaces \<open>id\<close> and \<open>email\<close> when the stored
  data has them (\<open>m ++ d\<close> takes \<open>d\<close> where \<open>d\<close> is defined).
\<close>

definition mergeUser :: "FirebaseUser \<Rightarrow> fields \<Rightarrow> fields" where
  "mergeUser fu d = [''id'' \<mapsto> JStr (uid fu), ''email'' \<mapsto> emailValue fu] ++ d"

section \<open>The coordinator's state\<close>

text \<open>
  Every \<open>await\<close> of the source suspends the running function until the collaborator
  settles the promise; other callbacks run meanwhile. A suspended function is a task:
  which function it is, at which \<open>await\<close> it stands, and the local variables it needs
  when it resumes.
\<close>

datatype task =
    HandlerGetDoc FirebaseUser
  | HandlerSetDoc FirebaseUser fields
  | LoginSignIn string string
  | LoginGetDoc FirebaseUser
  | LoginSetDoc FirebaseUser fields
  | LogoutSignOut

text \<open>
  \<open>user\<close> and \<open>isLoading\<close> are the two \<open>useState\<close> cells. \<open>store\<close> is the collection
  \<open>users\<close> of the document store, keyed by document id. \<open>tasks\<close> holds the suspended
  functions under the number each got when it started, \<open>nextId\<close> is the next free number.
  \<open>console\<close> is what \<open>console.error\<close> has printed: the label and the thrown value.
\<close>

record coordinator =
  user :: "fields option"
  isLoading :: bool
  store :: "string \<rightharpoonup> fields"
  tasks :: "nat \<rightharpoonup> task"
  nextId :: nat
  console :: "(string \<times> thrown) list"

text \<open>\<open>useState<User | null>(null)\<close>, \<open>useState(true)\<close>, over a given store.\<close>

definition init :: "(string \<rightharpoonup> fields) \<Rightarrow> coordinator" where
  "init s = \<lparr>user = None, isLoading = True, store = s, tasks = Map.empty, nextId = 0,
     console = []\<rparr>"

text \<open>
  The context value the provider publishes:
  \<open>{ user, login, logout, isAuthenticated: !!user, isLoading }\<close>. An object is truthy,
  \<open>null\<close> is falsy.
\<close>

record session =
  sessionUser :: "fields option"
  isAuthenticated :: bool
  sessionLoading :: bool

definition contextValue :: "coordinator \<Rightarrow> session" where
  "contextValue st =
    \<lparr>sessionUser = user st, isAuthenticated = (user st \<noteq> None), sessionLoading = isLoading st\<rparr>"

section \<open>What happens to the coordinator\<close>

text \<open>
  The provider pushes a session change; a consumer calls \<open>login\<close> or \<open>logout\<close>; a pending
  promise settles. \<open>SignInSettled i r\<close>: \<open>signInWithEmailAndPassword\<close> of task \<open>i\<close> rejects
  with \<open>Inl e\<close> or fulfils with the credential's user. \<open>GetDocSettled i e now\<close>: \<open>getDoc\<close>
  of task \<open>i\<close> rejects with \<open>Some e\<close> or fulfils with the snapshot of the store; \<open>now\<close> is
  the clock at that moment. \<open>SetDocSettled\<close> and \<open>SignOutSettled\<close> likewise.

  The collaborators are not constrained: any event may come in any state, so what holds
  of every run holds of the runs the provider and the store really produce. The store is
  read and written at the moment the promise settles. The code between two \<open>await\<close>s
  runs without interruption (one thread, one event loop), so it is one step; its calls of
  \<open>setUser\<close> and \<open>setIsLoading\<close> take effect together.
\<close>

datatype event =
    AuthStateChanged "FirebaseUser option"
  | LoginCalled string string
  | LogoutCalled
  | SignInSettled nat "thrown + FirebaseUser"
  | GetDocSettled nat "thrown option" string
  | SetDocSettled nat "thrown option"
  | SignOutSettled nat "thrown option"

text \<open>What the promise returned by \<open>login\<close> or \<open>logout\<close> settles with.\<close>

datatype reply = Resolved | Rejected thrown

definition spawn :: "task \<Rightarrow> coordinator \<Rightarrow> coordinator" where
  "spawn t st = st\<lparr>tasks := (tasks st)(nextId st \<mapsto> t), nextId := Suc (nextId st)\<rparr>"

definition finish :: "nat \<Rightarrow> coordinator \<Rightarrow> coordinator" where
  "finish i st = st\<lparr>tasks := (tasks st)(i := None)\<rparr>"

definition logError :: "string \<Rightarrow> thrown \<Rightarrow> coordinator \<Rightarrow> coordinator" where
  "logError label e st = st\<lparr>console := console st @ [(label, e)]\<rparr>"

text \<open>
  \<open>setDoc(userRef, basicUser, { merge: true })\<close> on the document \<open>users/uid\<close>: the written
  fields replace the stored ones of the same name, the other stored fields stay, and a
  missing document is created.
\<close>

definition setDocMerge :: "string \<Rightarrow> fields \<Rightarrow> (string \<rightharpoonup> fields) \<Rightarrow> (string \<rightharpoonup> fields)" where
  "setDocMerge k d s = s(k \<mapsto> (case s k of None \<Rightarrow> d | Some old \<Rightarrow> old ++ d))"

subsection \<open>The callback of \<open>onAuthStateChanged\<close>\<close>

text \<open>
  \<open>catch\<close>: \<open>console.error('Error in auth state change:', error); setUser(null)\<close>, then
  \<open>finally\<close>: \<open>setIsLoading(false)\<close>.
\<close>

definition handlerCatch :: "nat \<Rightarrow> thrown \<Rightarrow> coordinator \<Rightarrow> coordinator" where
  "handlerCatch i e st =
    finish i ((logError ''Error in auth state change:'' e st)\<lparr>user := None, isLoading := False\<rparr>)"

definition authStateChanged :: "FirebaseUser option \<Rightarrow> coordinator \<Rightarrow> coordinator" where
  "authStateChanged fu st =
    (case fu of
       Some u \<Rightarrow> spawn (HandlerGetDoc u) st
     | None \<Rightarrow> st\<lparr>user := None, isLoading := False\<rparr>)"

definition handlerGetDoc ::
  "nat \<Rightarrow> FirebaseUser \<Rightarrow> thrown option \<Rightarrow> string \<Rightarrow> coordinator \<Rightarrow> coordinator" where
  "handlerGetDoc i u err now st =
    (case err of
       Some e \<Rightarrow> handlerCatch i e st
     | None \<Rightarrow>
        (case store st (uid u) of
           Some d \<Rightarrow> finish i (st\<lparr>user := Some (mergeUser u d), isLoading := False\<rparr>)
         | None \<Rightarrow> st\<lparr>tasks := (tasks st)(i \<mapsto> HandlerSetDoc u (basicUser u now))\<rparr>))"

definition handlerSetDoc ::
  "nat \<Rightarrow> FirebaseUser \<Rightarrow> fields \<Rightarrow> thrown option \<Rightarrow> coordinator \<Rightarrow> coordinator" where
  "handlerSetDoc i u b err st =
    (case err of
       Some e \<Rightarrow> handlerCatch i e (logError ''Error creating user document:'' e st)
     | None \<Rightarrow>
        finish i (st\<lparr>store := setDocMerge (uid u) b (store st), user := Some b,
          isLoading := False\<rparr>))"

subsection \<open>\<open>login\<close>\<close>

text \<open>
  \<open>catch\<close>: \<open>console.error('Login error:', error)\<close>; an \<open>Error\<close> with a \<open>code\<close> is replaced
  by \<open>new Error(getErrorMessage(error))\<close>, any other value is thrown again as it is.
\<close>

definition loginThrows :: "thrown \<Rightarrow> thrown" where
  "loginThrows e = (case e of Coded c \<Rightarrow> Uncoded (getErrorMessage c) | Uncoded m \<Rightarrow> Uncoded m)"

definition loginCatch ::
  "nat \<Rightarrow> thrown \<Rightarrow> coordinator \<Rightarrow> coordinator \<times> (nat \<times> reply) option" where
  "loginCatch i e st =
    (finish i (logError ''Login error:'' e st), Some (i, Rejected (loginThrows e)))"

definition loginSignIn ::
  "nat \<Rightarrow> thrown + FirebaseUser \<Rightarrow> coordinator \<Rightarrow> coordinator \<times> (nat \<times> reply) option" where
  "loginSignIn i r st =
    (case r of
       Inl e \<Rightarrow> loginCatch i e st
     | Inr u \<Rightarrow> (st\<lparr>tasks := (tasks st)(i \<mapsto> LoginGetDoc u)\<rparr>, None))"

definition loginGetDoc ::
  "nat \<Rightarrow> FirebaseUser \<Rightarrow> thrown option \<Rightarrow> string \<Rightarrow> coordinator
    \<Rightarrow> coordinator \<times> (nat \<times> reply) option" where
  "loginGetDoc i u err now st =
    (case err of
       Some e \<Rightarrow> loginCatch i e st
     | None \<Rightarrow>
        (case store st (uid u) of
           None \<Rightarrow> (st\<lparr>tasks := (tasks st)(i \<mapsto> LoginSetDoc u (basicUser u now))\<rparr>, None)
         | Some d \<Rightarrow> (finish i (st\<lparr>user := Some (mergeUser u d)\<rparr>), Some (i, Resolved))))"

definition loginSetDoc ::
  "nat \<Rightarrow> FirebaseUser \<Rightarrow> fields \<Rightarrow> thrown option \<Rightarrow> coordinator
    \<Rightarrow> coordinator \<times> (nat \<times> reply) option" where
  "loginSetDoc i u b err st =
    (case err of
       Some e \<Rightarrow> loginCatch i e (logError ''Error creating user document:'' e st)
     | None \<Rightarrow>
        (finish i (st\<lparr>store := setDocMerge (uid u) b (store st), user := Some b\<rparr>),
         Some (i, Resolved)))"

subsection \<open>\<open>logout\<close>\<close>

definition logoutSignOut ::
  "nat \<Rightarrow> thrown option \<Rightarrow> coordinator \<Rightarrow> coordinator \<times> (nat \<times> reply) option" where
  "logoutSignOut i err st =
    (case err of
       None \<Rightarrow> (finish i (st\<lparr>user := None\<rparr>), Some (i, Resolved))
     | Some e \<Rightarrow>
        (finish i (logError ''Logout error:'' e st),
         Some (i, Rejected (Uncoded ''Erro ao fazer logout. Tente novamente''))))"

subsection \<open>One step, and runs\<close>

text \<open>
  A step returns the new state and, when a call of \<open>login\<close> or \<open>logout\<close> settles in it, the
  number of the call and what it settles with. A settlement that names no task, or a task
  that awaits something else, changes nothing.
\<close>

fun step :: "coordinator \<Rightarrow> event \<Rightarrow> coordinator \<times> (nat \<times> reply) option" where
  "step st (AuthStateChanged fu) = (authStateChanged fu st, None)"
| "step st (LoginCalled em pw) = (spawn (LoginSignIn em pw) st, None)"
| "step st LogoutCalled = (spawn LogoutSignOut st, None)"
| "step st (SignInSettled i r) =
    (case tasks st i of
       Some (LoginSignIn em pw) \<Rightarrow> loginSignIn i r st
     | _ \<Rightarrow> (st, None))"
| "step st (GetDocSettled i err now) =
    (case tasks st i of
       Some (HandlerGetDoc u) \<Rightarrow> (handlerGetDoc i u err now st, None)
     | Some (LoginGetDoc u) \<Rightarrow> loginGetDoc i u err now st
     | _ \<Rightarrow> (st, None))"
| "step st (SetDocSettled i err) =
    (case tasks st i of
       Some (HandlerSetDoc u b) \<Rightarrow> (handlerSetDoc i u b err st, None)
     | Some (LoginSetDoc u b) \<Rightarrow> loginSetDoc i u b err st
     | _ \<Rightarrow> (st, None))"
| "step st (SignOutSettled i err) =
    (case tasks st i of
       Some LogoutSignOut \<Rightarrow> logoutSignOut i err st
     | _ \<Rightarrow> (st, None))"

fun run :: "coordinator \<Rightarrow> event list \<Rightarrow> coordinator" where
  "run st [] = st"
| "run st (ev # evs) = run (fst (step st ev)) evs"

section \<open>Notions the properties are stated with\<close>

subsection \<open>Events of a call of \<open>login\<close>\<close>

text \<open>
  \<open>loginEvent st ev\<close>: in state \<open>st\<close> the event \<open>ev\<close> belongs to a call of \<open>login\<close>: it is
  the call, or it settles the promise a suspended \<open>login\<close> awaits.
\<close>

definition loginEvent :: "coordinator \<Rightarrow> event \<Rightarrow> bool" where
  "loginEvent st ev =
    (case ev of
       LoginCalled em pw \<Rightarrow> True
     | SignInSettled i r \<Rightarrow>
         (case tasks st i of Some (LoginSignIn em pw) \<Rightarrow> True | _ \<Rightarrow> False)
     | GetDocSettled i err now \<Rightarrow>
         (case tasks st i of Some (LoginGetDoc u) \<Rightarrow> True | _ \<Rightarrow> False)
     | SetDocSettled i err \<Rightarrow>
         (case tasks st i of Some (LoginSetDoc u b) \<Rightarrow> True | _ \<Rightarrow> False)
     | _ \<Rightarrow> False)"

text \<open>
  \<open>loginRejection st ev = Some (i, e)\<close>: in state \<open>st\<close> the event \<open>ev\<close> makes the promise
  that the suspended \<open>login\<close> number \<open>i\<close> awaits reject with \<open>e\<close>: the identity provider
  rejects the credentials, or reading or writing the profile fails.
\<close>

definition loginRejection :: "coordinator \<Rightarrow> event \<Rightarrow> (nat \<times> thrown) option" where
  "loginRejection st ev =
    (case ev of
       SignInSettled i (Inl e) \<Rightarrow>
         (case tasks st i of Some (LoginSignIn em pw) \<Rightarrow> Some (i, e) | _ \<Rightarrow> None)
     | GetDocSettled i (Some e) now \<Rightarrow>
         (case tasks st i of Some (LoginGetDoc u) \<Rightarrow> Some (i, e) | _ \<Rightarrow> None)
     | SetDocSettled i (Some e) \<Rightarrow>
         (case tasks st i of Some (LoginSetDoc u b) \<Rightarrow> Some (i, e) | _ \<Rightarrow> None)
     | _ \<Rightarrow> None)"

subsection \<open>Completed resolutions\<close>

text \<open>
  \<open>completes st ev\<close>: in state \<open>st\<close> the event \<open>ev\<close> brings one run of the callback of
  \<open>onAuthStateChanged\<close> to its end. A sign-out event does so at once; a sign-in event
  suspends at \<open>getDoc\<close>, and its run ends when \<open>getDoc\<close> rejects or finds the document, or
  else when the \<open>setDoc\<close> of \<open>createUserDocument\<close> settles.
\<close>

definition completes :: "coordinator \<Rightarrow> event \<Rightarrow> bool" where
  "completes st ev =
    (case ev of
       AuthStateChanged fu \<Rightarrow> fu = None
     | GetDocSettled i err now \<Rightarrow>
         (case tasks st i of
            Some (HandlerGetDoc u) \<Rightarrow> err \<noteq> None \<or> store st (uid u) \<noteq> None
          | _ \<Rightarrow> False)
     | SetDocSettled i err \<Rightarrow>
         (case tasks st i of Some (HandlerSetDoc u b) \<Rightarrow> True | _ \<Rightarrow> False)
     | _ \<Rightarrow> False)"

text \<open>How many resolutions complete along a run.\<close>

fun completions :: "coordinator \<Rightarrow> event list \<Rightarrow> nat" where
  "completions st [] = 0"
| "completions st (ev # evs) =
    (if completes st ev then 1 else 0) + completions (fst (step st ev)) evs"

text \<open>How many steps of a run take \<open>isLoading\<close> from true to false, and from false to true.\<close>

fun drops :: "coordinator \<Rightarrow> event list \<Rightarrow> nat" where
  "drops st [] = 0"
| "drops st (ev # evs) =
    (if isLoading st \<and> \<not> isLoading (fst (step st ev)) then 1 else 0)
      + drops (fst (step st ev)) evs"

fun rises :: "coordinator \<Rightarrow> event list \<Rightarrow> nat" where
  "rises st [] = 0"
| "rises st (ev # evs) =
    (if \<not> isLoading st \<and> isLoading (fst (step st ev)) then 1 else 0)
      + rises (fst (step st ev)) evs"

subsection \<open>Resolutions that do not overlap\<close>

text \<open>
  \<open>deliver st (fu, now)\<close>: the provider pushes \<open>fu\<close>, and the resolution of this event
  completes, with no failure of the store, before anything else happens. The callback
  started by a sign-in event is the task number \<open>nextId st\<close>.
\<close>

definition deliver :: "coordinator \<Rightarrow> FirebaseUser option \<times> string \<Rightarrow> coordinator" where
  "deliver st x =
    (case x of
       (None, now) \<Rightarrow> run st [AuthStateChanged None]
     | (Some u, now) \<Rightarrow>
         run st [AuthStateChanged (Some u), GetDocSettled (nextId st) None now,
                 SetDocSettled (nextId st) None])"

fun deliverAll :: "coordinator \<Rightarrow> (FirebaseUser option \<times> string) list \<Rightarrow> coordinator" where
  "deliverAll st [] = st"
| "deliverAll st (x # xs) = deliverAll (deliver st x) xs"

subsection \<open>The route guard\<close>

text \<open>
  Modelled from the spec: the four decisions of the guard, which the specification names
  render nothing (suspend), redirect to the login view, redirect to the unauthorized view
  and render the protected content.
\<close>

datatype decision = Suspend | RedirectLogin | RedirectUnauthorized | Render

text \<open>
  Modelled from the spec: \<open>currentUser.role\<close>, the property \<open>role\<close> of the published
  \<open>user\<close>; there is none when no user is published.
\<close>

definition currentRole :: "session \<Rightarrow> jsval option" where
  "currentRole s = (case sessionUser s of None \<Rightarrow> None | Some p \<Rightarrow> p ''role'')"

text \<open>
  Modelled from the spec: the component \<open>ProtectedRoute\<close> is not among the sources, only
  its uses in the route table are (\<open>allowedRoles={['admin']}\<close>, a list of role strings, or
  no \<open>allowedRoles\<close>). The specification gives its decision: if \<open>isLoading\<close>, render nothing;
  else if not \<open>isAuthenticated\<close>, redirect to the login view; else if \<open>requiredRoles\<close> is
  present and the current user's role is not a member, redirect to the unauthorized view;
  else render the protected content.
\<close>

definition guard :: "session \<Rightarrow> string list option \<Rightarrow> decision" where
  "guard s requiredRoles =
    (if sessionLoading s then Suspend
     else if \<not> isAuthenticated s then RedirectLogin
     else
       (case requiredRoles of
          Some rs \<Rightarrow>
            if currentRole s \<in> set (map (\<lambda>r. Some (JStr r)) rs) then Render
            else RedirectUnauthorized
        | None \<Rightarrow> Render))"

subsection \<open>Runs with other passwords\<close>

text \<open>
  \<open>withPassword f ev\<close> is the event \<open>ev\<close> with the password of a call of \<open>login\<close> replaced
  by \<open>f\<close> of it; every other event is unchanged. The only place of a state that holds a
  password is a \<open>login\<close> suspended at \<open>signInWithEmailAndPassword\<close>: \<open>tasksWithPassword f\<close>
  replaces the password there.
\<close>

definition withPassword :: "(string \<Rightarrow> string) \<Rightarrow> event \<Rightarrow> event" where
  "withPassword f ev = (case ev of LoginCalled em pw \<Rightarrow> LoginCalled em (f pw) | _ \<Rightarrow> ev)"

definition taskWithPassword :: "(string \<Rightarrow> string) \<Rightarrow> task \<Rightarrow> task" where
  "taskWithPassword f t = (case t of LoginSignIn em pw \<Rightarrow> LoginSignIn em (f pw) | _ \<Rightarrow> t)"

definition tasksWithPassword :: "(string \<Rightarrow> string) \<Rightarrow> coordinator \<Rightarrow> coordinator" where
  "tasksWithPassword f st = st\<lparr>tasks := map_option (taskWithPassword f) \<circ> tasks st\<rparr>"

subsection \<open>Sample principals\<close>

definition u123 :: FirebaseUser where
  "u123 = \<lparr>uid = ''u123'', email = Some ''ana@x.com'', displayName = Some ''Ana''\<rparr>"

text \<open>The same principal after its email was changed at the identity provider.\<close>

definition u123moved :: FirebaseUser where
  "u123moved = \<lparr>uid = ''u123'', email = Some ''ana@y.com'', displayName = Some ''Ana''\<rparr>"

text \<open>A store in which the principal \<open>u123\<close> has a profile, as an administrator.\<close>

definition adminStore :: "string \<rightharpoonup> fields" where
  "adminStore =
    [''u123'' \<mapsto> [''name'' \<mapsto> JStr ''Ana'', ''role'' \<mapsto> JStr ''admin'',
                  ''status'' \<mapsto> JStr ''ativo'']]"

section \<open>Basic facts\<close>

lemmas handler_defs = authStateChanged_def handlerGetDoc_def handlerSetDoc_def handlerCatch_def

lemmas login_defs = loginSignIn_def loginGetDoc_def loginSetDoc_def loginCatch_def

lemmas aux_defs = spawn_def finish_def logError_def

lemma run_append: "run st (evs @ evs') = run (run st evs) evs'"
  by (induction evs arbitrary: st) auto

text \<open>A rejected \<open>login\<close> only prints to the console and drops its task.\<close>

lemma loginRejection_step:
  assumes "loginRejection st ev = Some (i, e)"
  shows "step st ev =
          (finish i (logError ''Login error:'' e
             (case ev of
                SetDocSettled j x \<Rightarrow> logError ''Error creating user document:'' e st
              | _ \<Rightarrow> st)),
           Some (i, Rejected (loginThrows e)))"
  using assms
  by (cases ev)
     (auto simp: loginRejection_def login_defs split: option.splits task.splits sum.splits)

lemma loginEvent_step:
  assumes "loginEvent st ev"
  shows "(\<exists>i. snd (step st ev) = Some (i, Resolved))
       \<or> (user (fst (step st ev)) = user st \<and> isLoading (fst (step st ev)) = isLoading st)"
  using assms
  by (cases ev)
     (auto simp: loginEvent_def login_defs aux_defs
           split: option.splits task.splits sum.splits)

text \<open>Only the end of a run of the provider's callback touches \<open>isLoading\<close>, and clears it.\<close>

lemma isLoading_step:
  "isLoading (fst (step st ev)) = (isLoading st \<and> \<not> completes st ev)"
  by (cases ev)
     (auto simp: completes_def handler_defs login_defs logoutSignOut_def aux_defs
           split: option.splits task.splits sum.splits)

lemma isLoading_run:
  "isLoading (run st evs) = (isLoading st \<and> completions st evs = 0)"
  by (induction evs arbitrary: st) (auto simp: isLoading_step)

lemma rises_zero: "rises st evs = 0"
  by (induction evs arbitrary: st) (auto simp: isLoading_step)

lemma drops_not_loading: "\<not> isLoading st \<Longrightarrow> drops st evs = 0"
  by (induction evs arbitrary: st) (auto simp: isLoading_step)

lemma drops_loading:
  "isLoading st \<Longrightarrow> drops st evs = (if completions st evs = 0 then 0 else 1)"
proof (induction evs arbitrary: st)
  case Nil
  then show ?case by simp
next
  case (Cons ev evs)
  show ?case
  proof (cases "completes st ev")
    case True
    then have "\<not> isLoading (fst (step st ev))" by (simp add: isLoading_step)
    then have "drops (fst (step st ev)) evs = 0" by (rule drops_not_loading)
    with True Cons.prems show ?thesis by (simp add: isLoading_step)
  next
    case False
    with Cons.prems have "isLoading (fst (step st ev))" by (simp add: isLoading_step)
    from Cons.IH [OF this] False Cons.prems show ?thesis by (simp add: isLoading_step)
  qed
qed

text \<open>A resolution that runs alone publishes the profile of its own event.\<close>

lemma deliver_user:
  "user (deliver st (fu, now)) =
     (case fu of
        None \<Rightarrow> None
      | Some u \<Rightarrow>
          Some (case store st (uid u) of Some d \<Rightarrow> mergeUser u d | None \<Rightarrow> basicUser u now))"
  by (cases fu; cases "store st (uid (the fu))")
     (simp_all add: deliver_def handler_defs aux_defs)

lemma deliverAll_snoc: "deliverAll st (xs @ [x]) = deliver (deliverAll st xs) x"
  by (induction xs arbitrary: st) auto

text \<open>
  A suspended \<open>createUserDocument\<close> holds a \<open>basicUser\<close> object, and nothing but a
  suspended \<open>createUserDocument\<close> writes to the store.
\<close>

lemma creation_tasks_step:
  assumes "\<forall>i u b. tasks st i = Some (HandlerSetDoc u b) \<or> tasks st i = Some (LoginSetDoc u b)
             \<longrightarrow> (\<exists>now. b = basicUser u now)"
  shows "\<forall>i u b. tasks (fst (step st ev)) i = Some (HandlerSetDoc u b)
               \<or> tasks (fst (step st ev)) i = Some (LoginSetDoc u b)
             \<longrightarrow> (\<exists>now. b = basicUser u now)"
  using assms
  by (cases ev)
     (auto simp: handler_defs login_defs logoutSignOut_def aux_defs
           split: option.splits task.splits sum.splits if_splits)

lemma creation_tasks_run:
  assumes "\<forall>i u b. tasks st i = Some (HandlerSetDoc u b) \<or> tasks st i = Some (LoginSetDoc u b)
             \<longrightarrow> (\<exists>now. b = basicUser u now)"
  shows "\<forall>i u b. tasks (run st evs) i = Some (HandlerSetDoc u b)
               \<or> tasks (run st evs) i = Some (LoginSetDoc u b)
             \<longrightarrow> (\<exists>now. b = basicUser u now)"
  using assms
proof (induction evs arbitrary: st)
  case Nil
  then show ?case by simp
next
  case (Cons ev evs)
  from creation_tasks_step [OF Cons.prems]
  show ?case unfolding run.simps by (rule Cons.IH)
qed

lemma store_write_step:
  "store (fst (step st ev)) = store st
   \<or> (\<exists>i u b. (tasks st i = Some (HandlerSetDoc u b) \<or> tasks st i = Some (LoginSetDoc u b))
         \<and> ev = SetDocSettled i None
         \<and> store (fst (step st ev)) = setDocMerge (uid u) b (store st))"
  by (cases ev)
     (auto simp: handler_defs login_defs logoutSignOut_def aux_defs
           split: option.splits task.splits sum.splits)

lemma password_after_merge:
  "\<exists>d. setDocMerge k (basicUser u now) s k = Some d \<and> d ''password'' = Some (JStr [])"
  by (simp add: setDocMerge_def basicUser_def split: option.splits)

lemma setDocMerge_other: "k' \<noteq> k \<Longrightarrow> setDocMerge k b s k' = s k'"
  by (simp add: setDocMerge_def)

lemma basicUser_add: "basicUser u now ++ basicUser u now' = basicUser u now'"
  by (rule ext) (simp add: basicUser_def map_add_def)

text \<open>A password only travels from the call of \<open>login\<close> to the provider.\<close>

lemma step_withPassword:
  "step (tasksWithPassword f st) (withPassword f ev)
     = (tasksWithPassword f (fst (step st ev)), snd (step st ev))"
  by (cases ev)
     (auto simp: tasksWithPassword_def withPassword_def taskWithPassword_def
             handler_defs login_defs logoutSignOut_def aux_defs
             map_option_o_map_upd fun_upd_comp
           split: option.splits task.splits sum.splits)

lemma run_withPassword:
  "run (tasksWithPassword f st) (map (withPassword f) evs) = tasksWithPassword f (run st evs)"
  by (induction evs arbitrary: st) (simp_all add: step_withPassword)

lemma init_withPassword: "tasksWithPassword f (init s) = init s"
  by (simp add: tasksWithPassword_def init_def)

section \<open>Failed logins\<close>

text \<open>
  Claim C1. A call of \<open>login\<close> that fails leaves the session state as it was and hands
  the caller the localized message of the provider's error code.

  When the promise a suspended \<open>login\<close> awaits rejects with \<open>e\<close> (the provider rejects the
  credentials, or \<open>getDoc\<close> or \<open>setDoc\<close> fails while the profile is resolved), the step
  changes neither \<open>user\<close> nor \<open>isLoading\<close>, so the published context value is the same, and
  the promise of \<open>login\<close> rejects: with \<open>new Error(getErrorMessage(e))\<close> when \<open>e\<close> carries a
  \<open>code\<close>, with \<open>e\<close> itself otherwise. No other step of a call of \<open>login\<close> changes the
  session either, unless it is the one in which the call succeeds. The seven known codes
  have their own messages; every other code has the generic one, which asks to try again.
\<close>

theorem login_failure_keeps_session:
  "(loginRejection st ev = Some (i, e) \<longrightarrow>
      user (fst (step st ev)) = user st
    \<and> isLoading (fst (step st ev)) = isLoading st
    \<and> contextValue (fst (step st ev)) = contextValue st
    \<and> snd (step st ev) =
        Some (i, Rejected (case e of Coded c \<Rightarrow> Uncoded (getErrorMessage c)
                                   | Uncoded m \<Rightarrow> Uncoded m)))
   \<and> (loginEvent st ev \<longrightarrow>
        (\<exists>j. snd (step st ev) = Some (j, Resolved))
      \<or> contextValue (fst (step st ev)) = contextValue st)
   \<and> getErrorMessage ''auth/invalid-email'' = ''Email inv'' @ [CHR 0xE1] @ ''lido''
   \<and> getErrorMessage ''auth/user-disabled'' = ''Usu'' @ [CHR 0xE1] @ ''rio desativado''
   \<and> getErrorMessage ''auth/user-not-found''
        = ''Usu'' @ [CHR 0xE1] @ ''rio n'' @ [CHR 0xE3] @ ''o encontrado''
   \<and> getErrorMessage ''auth/wrong-password'' = ''Senha incorreta''
   \<and> getErrorMessage ''auth/too-many-requests''
        = ''Muitas tentativas. Tente novamente mais tarde''
   \<and> getErrorMessage ''auth/network-request-failed''
        = ''Erro de conex'' @ [CHR 0xE3] @ ''o. Verifique sua internet''
   \<and> getErrorMessage ''auth/internal-error'' = ''Erro interno. Tente novamente''
   \<and> (code \<notin> {''auth/invalid-email'', ''auth/user-disabled'', ''auth/user-not-found'',
                ''auth/wrong-password'', ''auth/too-many-requests'',
                ''auth/network-request-failed'', ''auth/internal-error''}
        \<longrightarrow> getErrorMessage code = ''Erro ao fazer login. Tente novamente'')"
proof -
  have rej: "user (fst (step st ev)) = user st
    \<and> isLoading (fst (step st ev)) = isLoading st
    \<and> contextValue (fst (step st ev)) = contextValue st
    \<and> snd (step st ev) =
        Some (i, Rejected (case e of Coded c \<Rightarrow> Uncoded (getErrorMessage c)
                                   | Uncoded m \<Rightarrow> Uncoded m))"
    if r: "loginRejection st ev = Some (i, e)"
  proof -
    note s = loginRejection_step [OF r]
    have a: "user (fst (step st ev)) = user st" "isLoading (fst (step st ev)) = isLoading st"
      by (simp_all add: s aux_defs split: event.splits)
    have b: "contextValue (fst (step st ev)) = contextValue st"
      by (simp add: contextValue_def a)
    have c: "snd (step st ev) =
        Some (i, Rejected (case e of Coded c \<Rightarrow> Uncoded (getErrorMessage c)
                                   | Uncoded m \<Rightarrow> Uncoded m))"
      by (simp add: s loginThrows_def)
    show ?thesis using a b c by simp
  qed
  have ev: "(\<exists>j. snd (step st ev) = Some (j, Resolved))
      \<or> contextValue (fst (step st ev)) = contextValue st"
    if l: "loginEvent st ev"
    using loginEvent_step [OF l] by (auto simp: contextValue_def)
  have other: "code \<notin> {''auth/invalid-email'', ''auth/user-disabled'', ''auth/user-not-found'',
                ''auth/wrong-password'', ''auth/too-many-requests'',
                ''auth/network-request-failed'', ''auth/internal-error''}
        \<longrightarrow> getErrorMessage code = ''Erro ao fazer login. Tente novamente''"
    by (simp add: getErrorMessage_def)
  have known: "getErrorMessage ''auth/invalid-email'' = ''Email inv'' @ [CHR 0xE1] @ ''lido''
   \<and> getErrorMessage ''auth/user-disabled'' = ''Usu'' @ [CHR 0xE1] @ ''rio desativado''
   \<and> getErrorMessage ''auth/user-not-found''
        = ''Usu'' @ [CHR 0xE1] @ ''rio n'' @ [CHR 0xE3] @ ''o encontrado''
   \<and> getErrorMessage ''auth/wrong-password'' = ''Senha incorreta''
   \<and> getErrorMessage ''auth/too-many-requests''
        = ''Muitas tentativas. Tente novamente mais tarde''
   \<and> getErrorMessage ''auth/network-request-failed''
        = ''Erro de conex'' @ [CHR 0xE3] @ ''o. Verifique sua internet''
   \<and> getErrorMessage ''auth/internal-error'' = ''Erro interno. Tente novamente''"
    by (simp add: getErrorMessage_def)
  show ?thesis using rej ev other known by blast
qed

text \<open>
  \<open>login("bad@x.com", "wrong")\<close> on a fresh coordinator, the provider reporting
  \<open>auth/wrong-password\<close>: the caller gets \<open>Senha incorreta\<close> and the published state is
  the initial one. A code outside the table gets the generic message.
\<close>

theorem login_failure_keeps_session_witness:
  "loginRejection (run (init Map.empty) [LoginCalled ''bad@x.com'' ''wrong''])
       (SignInSettled 0 (Inl (Coded ''auth/wrong-password'')))
     = Some (0, Coded ''auth/wrong-password'')
   \<and> loginEvent (run (init Map.empty) [LoginCalled ''bad@x.com'' ''wrong''])
       (SignInSettled 0 (Inl (Coded ''auth/wrong-password'')))
   \<and> snd (step (run (init Map.empty) [LoginCalled ''bad@x.com'' ''wrong''])
            (SignInSettled 0 (Inl (Coded ''auth/wrong-password''))))
       = Some (0, Rejected (Uncoded ''Senha incorreta''))
   \<and> contextValue (fst (step (run (init Map.empty) [LoginCalled ''bad@x.com'' ''wrong''])
            (SignInSettled 0 (Inl (Coded ''auth/wrong-password'')))))
       = \<lparr>sessionUser = None, isAuthenticated = False, sessionLoading = True\<rparr>
   \<and> ''auth/invalid-credential''
       \<notin> {''auth/invalid-email'', ''auth/user-disabled'', ''auth/user-not-found'',
          ''auth/wrong-password'', ''auth/too-many-requests'',
          ''auth/network-request-failed'', ''auth/internal-error''}
   \<and> getErrorMessage ''auth/invalid-credential'' = ''Erro ao fazer login. Tente novamente''"
  using login_failure_keeps_session
    [of "run (init Map.empty) [LoginCalled ''bad@x.com'' ''wrong'']"
        "SignInSettled 0 (Inl (Coded ''auth/wrong-password''))" 0
        "Coded ''auth/wrong-password''" "''auth/invalid-credential''"]
  by (simp add: init_def spawn_def loginRejection_def loginEvent_def contextValue_def)

section \<open>The loading flag\<close>

text \<open>
  Claim C2, as it is stated, at a concrete run: the provider pushes a sign-in and then a
  sign-out before the \<open>getDoc\<close> of the first event has settled. The run of the callback
  for the sign-out ends at once and clears \<open>isLoading\<close>, while the resolution of the
  first event is still suspended as task 0.
\<close>

theorem loading_first_event_counterexample:
  "tasks (run (init Map.empty) [AuthStateChanged (Some u123), AuthStateChanged None]) 0
     = Some (HandlerGetDoc u123)
   \<and> \<not> isLoading (run (init Map.empty) [AuthStateChanged (Some u123), AuthStateChanged None])"
  by (simp add: init_def authStateChanged_def spawn_def)

text \<open>
  Claim C2, amended. For every sequence of events, \<open>isLoading\<close> is true at initialization
  and stays true exactly as long as no resolution of a session-change event has completed:
  the first resolution to complete (of whichever event, a sign-in or a sign-out, also
  when it ends in an error) clears it. Along a run the flag goes from true to false
  once if some resolution completes and never otherwise, never goes from false to true,
  and once false it is false after every continuation of the run.
\<close>

theorem loading_cleared_once:
  "isLoading (init s)
   \<and> isLoading (run (init s) evs) = (completions (init s) evs = 0)
   \<and> drops (init s) evs = (if completions (init s) evs = 0 then 0 else 1)
   \<and> rises (init s) evs = 0
   \<and> (\<not> isLoading (run (init s) evs) \<longrightarrow> \<not> isLoading (run (init s) (evs @ evs')))"
proof -
  have a: "isLoading (init s)" by (simp add: init_def)
  have b: "isLoading (run (init s) evs) = (completions (init s) evs = 0)"
    by (simp add: isLoading_run a)
  have c: "drops (init s) evs = (if completions (init s) evs = 0 then 0 else 1)"
    by (rule drops_loading [OF a])
  have d: "\<not> isLoading (run (init s) evs) \<longrightarrow> \<not> isLoading (run (init s) (evs @ evs'))"
    by (simp add: run_append isLoading_run [of "run (init s) evs"])
  show ?thesis using a b c d rises_zero by blast
qed

text \<open>
  A sign-out on a fresh coordinator clears the flag in one step; a later sign-in event
  does not set it again. A failing \<open>getDoc\<close> clears it as well.
\<close>

theorem loading_cleared_once_witness:
  "\<not> isLoading (run (init Map.empty) [AuthStateChanged None])
   \<and> \<not> isLoading (run (init Map.empty) ([AuthStateChanged None] @ [AuthStateChanged (Some u123)]))
   \<and> drops (init Map.empty) [AuthStateChanged None] = 1
   \<and> \<not> isLoading (run (init Map.empty)
         [AuthStateChanged (Some u123), GetDocSettled 0 (Some (Coded ''unavailable'')) ''t''])"
  using loading_cleared_once
      [of Map.empty "[AuthStateChanged None]" "[AuthStateChanged (Some u123)]"]
    loading_cleared_once
      [of Map.empty
        "[AuthStateChanged (Some u123), GetDocSettled 0 (Some (Coded ''unavailable'')) ''t'']"]
  by (simp add: init_def authStateChanged_def spawn_def completes_def)

section \<open>The published flag \<open>isAuthenticated\<close>\<close>

text \<open>
  Claim C3. In the context value published in any state the coordinator reaches from its
  initial state, by any sequence of calls of \<open>login\<close> and \<open>logout\<close>, pushed session events
  and settlements, \<open>isAuthenticated\<close> is true exactly when \<open>user\<close> is not null; and the
  published \<open>user\<close> is the coordinator's.
\<close>

theorem isAuthenticated_iff_user:
  "isAuthenticated (contextValue (run (init s) evs))
     = (sessionUser (contextValue (run (init s) evs)) \<noteq> None)
   \<and> sessionUser (contextValue (run (init s) evs)) = user (run (init s) evs)"
  by (simp add: contextValue_def)

section \<open>The route guard\<close>

text \<open>
  Claim C4. The guard's decision: nothing is rendered while \<open>isLoading\<close>; otherwise an
  unauthenticated session is sent to the login view; otherwise, when a set of required
  roles is given and the current user's role is not in it, to the unauthorized view;
  otherwise the protected content is rendered. The decision depends on the session only
  through \<open>isLoading\<close>, \<open>isAuthenticated\<close> and the current user's role. With the required
  roles \<open>{admin}\<close>, the role \<open>organizador\<close> is sent to the unauthorized view and the role
  \<open>admin\<close> sees the content.
\<close>

theorem guard_decision:
  "(sessionLoading s \<longrightarrow> guard s req = Suspend)
   \<and> (\<not> sessionLoading s \<and> \<not> isAuthenticated s \<longrightarrow> guard s req = RedirectLogin)
   \<and> (\<not> sessionLoading s \<and> isAuthenticated s
        \<and> currentRole s \<notin> set (map (\<lambda>r. Some (JStr r)) rs)
      \<longrightarrow> guard s (Some rs) = RedirectUnauthorized)
   \<and> (\<not> sessionLoading s \<and> isAuthenticated s
        \<and> currentRole s \<in> set (map (\<lambda>r. Some (JStr r)) rs)
      \<longrightarrow> guard s (Some rs) = Render)
   \<and> (\<not> sessionLoading s \<and> isAuthenticated s \<longrightarrow> guard s None = Render)
   \<and> (sessionLoading s = sessionLoading s' \<and> isAuthenticated s = isAuthenticated s'
        \<and> currentRole s = currentRole s'
      \<longrightarrow> guard s req = guard s' req)
   \<and> guard \<lparr>sessionUser = Some [''role'' \<mapsto> JStr ''organizador''], isAuthenticated = True,
              sessionLoading = False\<rparr> (Some [''admin'']) = RedirectUnauthorized
   \<and> guard \<lparr>sessionUser = Some [''role'' \<mapsto> JStr ''admin''], isAuthenticated = True,
              sessionLoading = False\<rparr> (Some [''admin'']) = Render"
proof -
  have dep: "sessionLoading s = sessionLoading s' \<and> isAuthenticated s = isAuthenticated s'
        \<and> currentRole s = currentRole s'
      \<longrightarrow> guard s req = guard s' req"
    by (auto simp: guard_def split: option.splits)
  have ex1: "guard \<lparr>sessionUser = Some [''role'' \<mapsto> JStr ''organizador''],
      isAuthenticated = True, sessionLoading = False\<rparr> (Some [''admin''])
      = RedirectUnauthorized"
    by (simp add: guard_def currentRole_def)
  have ex2: "guard \<lparr>sessionUser = Some [''role'' \<mapsto> JStr ''admin''], isAuthenticated = True,
      sessionLoading = False\<rparr> (Some [''admin'']) = Render"
    by (simp add: guard_def currentRole_def)
  show ?thesis using dep ex1 ex2 by (simp add: guard_def)
qed

text \<open>
  The guard on what the coordinator publishes over a store in which \<open>u123\<close> is an
  administrator: at start, after a sign-out, and after the sign-in of \<open>u123\<close>.
\<close>

theorem guard_decision_witness:
  "guard (contextValue (init adminStore)) (Some [''admin'']) = Suspend
   \<and> guard (contextValue (run (init adminStore) [AuthStateChanged None])) (Some [''admin''])
       = RedirectLogin
   \<and> guard (contextValue (run (init adminStore)
        [AuthStateChanged (Some u123), GetDocSettled 0 None ''t''])) (Some [''organizador''])
       = RedirectUnauthorized
   \<and> guard (contextValue (run (init adminStore)
        [AuthStateChanged (Some u123), GetDocSettled 0 None ''t''])) (Some [''admin'']) = Render
   \<and> guard (contextValue (run (init adminStore)
        [AuthStateChanged (Some u123), GetDocSettled 0 None ''t''])) None = Render
   \<and> guard (contextValue (run (init adminStore)
        [AuthStateChanged (Some u123), GetDocSettled 0 None ''t''])) (Some [''admin''])
     = guard \<lparr>sessionUser = Some [''role'' \<mapsto> JStr ''admin''], isAuthenticated = True,
              sessionLoading = False\<rparr> (Some [''admin''])"
  using guard_decision [of "contextValue (init adminStore)" "Some [''admin'']"]
    guard_decision [of "contextValue (run (init adminStore) [AuthStateChanged None])"
      "Some [''admin'']"]
    guard_decision [of "contextValue (run (init adminStore)
        [AuthStateChanged (Some u123), GetDocSettled 0 None ''t''])" "Some [''admin'']"
        "[''organizador'']"
        "\<lparr>sessionUser = Some [''role'' \<mapsto> JStr ''admin''], isAuthenticated = True,
              sessionLoading = False\<rparr>"]
    guard_decision [of "contextValue (run (init adminStore)
        [AuthStateChanged (Some u123), GetDocSettled 0 None ''t''])" _ "[''admin'']"]
  by (simp add: init_def handler_defs aux_defs contextValue_def adminStore_def u123_def
        currentRole_def mergeUser_def)

section \<open>Resolving an existing profile\<close>

text \<open>
  Claim C5, as it is stated, at a concrete run. The principal \<open>u123\<close> signs in for the
  first time with the email \<open>ana@x.com\<close>, and the coordinator creates its document. The
  email is then changed at the identity provider, and the principal signs in again: the
  provider reports \<open>ana@y.com\<close>, and the coordinator publishes the stored \<open>ana@x.com\<close>.
\<close>

theorem stored_email_wins_counterexample:
  "map_option (\<lambda>p. p ''email'')
      (user (run (init Map.empty)
        [AuthStateChanged (Some u123), GetDocSettled 0 None ''2024-03-15'', SetDocSettled 0 None,
         AuthStateChanged None,
         AuthStateChanged (Some u123moved), GetDocSettled 1 None ''2024-03-16'']))
     = Some (Some (JStr ''ana@x.com''))
   \<and> emailValue u123moved = JStr ''ana@y.com''"
  by (simp add: init_def handler_defs aux_defs u123_def u123moved_def setDocMerge_def
        mergeUser_def basicUser_def emailValue_def)

text \<open>
  Claim C5, amended. For every principal whose document exists in the store, profile
  resolution, in the callback of \<open>onAuthStateChanged\<close> and in \<open>login\<close> alike, publishes the
  object \<open>{ id, email, ...stored }\<close>: every field the stored document has is published
  with its stored value (the profile fields, and \<open>id\<close> and \<open>email\<close> too when the document
  has them); the provider's id and email are published only where the stored document
  has no such field; no other field is published.
\<close>

theorem existing_profile_store_wins:
  "(tasks st i = Some (HandlerGetDoc u) \<and> store st (uid u) = Some d \<longrightarrow>
      user (fst (step st (GetDocSettled i None now))) = Some (mergeUser u d)
    \<and> sessionUser (contextValue (fst (step st (GetDocSettled i None now))))
        = Some (mergeUser u d))
   \<and> (tasks st i = Some (LoginGetDoc u) \<and> store st (uid u) = Some d \<longrightarrow>
      user (fst (step st (GetDocSettled i None now))) = Some (mergeUser u d)
    \<and> sessionUser (contextValue (fst (step st (GetDocSettled i None now))))
        = Some (mergeUser u d)
    \<and> snd (step st (GetDocSettled i None now)) = Some (i, Resolved))
   \<and> mergeUser u d f =
       (case d f of
          Some v \<Rightarrow> Some v
        | None \<Rightarrow>
            if f = ''id'' then Some (JStr (uid u))
            else if f = ''email'' then Some (emailValue u)
            else None)"
  by (simp add: handler_defs login_defs aux_defs contextValue_def mergeUser_def map_add_def
        split: option.splits)

text \<open>
  Over a store whose document for \<open>u123\<close> has a name, a role and a status: the callback and
  \<open>login\<close> both publish that document with the provider's id and email filled in.
\<close>

theorem existing_profile_store_wins_witness:
  "tasks (run (init adminStore) [AuthStateChanged (Some u123)]) 0 = Some (HandlerGetDoc u123)
   \<and> store (run (init adminStore) [AuthStateChanged (Some u123)]) (uid u123)
       = Some [''name'' \<mapsto> JStr ''Ana'', ''role'' \<mapsto> JStr ''admin'', ''status'' \<mapsto> JStr ''ativo'']
   \<and> tasks (run (init adminStore) [LoginCalled ''ana@x.com'' ''Secret123'',
         SignInSettled 0 (Inr u123)]) 0 = Some (LoginGetDoc u123)
   \<and> store (run (init adminStore) [LoginCalled ''ana@x.com'' ''Secret123'',
         SignInSettled 0 (Inr u123)]) (uid u123)
       = Some [''name'' \<mapsto> JStr ''Ana'', ''role'' \<mapsto> JStr ''admin'', ''status'' \<mapsto> JStr ''ativo'']
   \<and> user (run (init adminStore) [AuthStateChanged (Some u123), GetDocSettled 0 None ''t''])
       = Some (mergeUser u123
           [''name'' \<mapsto> JStr ''Ana'', ''role'' \<mapsto> JStr ''admin'', ''status'' \<mapsto> JStr ''ativo''])
   \<and> user (run (init adminStore) [LoginCalled ''ana@x.com'' ''Secret123'',
         SignInSettled 0 (Inr u123), GetDocSettled 0 None ''t''])
       = Some (mergeUser u123
           [''name'' \<mapsto> JStr ''Ana'', ''role'' \<mapsto> JStr ''admin'', ''status'' \<mapsto> JStr ''ativo''])"
  using existing_profile_store_wins
      [of "run (init adminStore) [AuthStateChanged (Some u123)]" 0 u123
        "[''name'' \<mapsto> JStr ''Ana'', ''role'' \<mapsto> JStr ''admin'', ''status'' \<mapsto> JStr ''ativo'']"
        "''t''"]
    existing_profile_store_wins
      [of "run (init adminStore) [LoginCalled ''ana@x.com'' ''Secret123'',
         SignInSettled 0 (Inr u123)]" 0 u123
        "[''name'' \<mapsto> JStr ''Ana'', ''role'' \<mapsto> JStr ''admin'', ''status'' \<mapsto> JStr ''ativo'']"
        "''t''"]
  by (simp add: init_def authStateChanged_def loginSignIn_def spawn_def adminStore_def u123_def)

section \<open>Overlapping resolutions\<close>

text \<open>
  Claim C6, as it is stated, at a concrete run. The provider pushes the sign-in of \<open>u123\<close>
  and then a sign-out; the sign-out is resolved at once and the coordinator publishes an
  unauthenticated session. Then the \<open>getDoc\<close> of the earlier sign-in settles, and the
  coordinator publishes \<open>u123\<close> as authenticated, over the state of the newer event.
\<close>

theorem stale_resolution_overwrites_counterexample:
  "\<not> isAuthenticated (contextValue (run (init adminStore)
        [AuthStateChanged (Some u123), AuthStateChanged None]))
   \<and> isAuthenticated (contextValue (run (init adminStore)
        [AuthStateChanged (Some u123), AuthStateChanged None, GetDocSettled 0 None ''t'']))"
  by (simp add: init_def handler_defs aux_defs contextValue_def adminStore_def u123_def)

text \<open>
  Claim C6, amended. Session-state publications follow the order in which resolutions
  complete, not the order of the events: a resolution that completes publishes the
  profile of its own event (or no user, for a sign-out) whatever was published before.
  When every event's resolution completes, with no failure of the store, before the next
  event is delivered, the published \<open>isAuthenticated\<close> after the last resolution is true
  exactly when the most recent event is a sign-in.
\<close>

theorem last_completion_wins:
  "(tasks st i = Some (HandlerGetDoc u) \<and> store st (uid u) = Some d \<longrightarrow>
      user (fst (step st (GetDocSettled i None now))) = Some (mergeUser u d))
   \<and> (tasks st i = Some (HandlerSetDoc u b) \<longrightarrow>
      user (fst (step st (SetDocSettled i None))) = Some b)
   \<and> user (fst (step st (AuthStateChanged None))) = None
   \<and> (xs \<noteq> [] \<longrightarrow>
      isAuthenticated (contextValue (deliverAll st xs)) = (fst (last xs) \<noteq> None))"
proof -
  have "xs \<noteq> [] \<longrightarrow>
      isAuthenticated (contextValue (deliverAll st xs)) = (fst (last xs) \<noteq> None)"
  proof (cases xs rule: rev_cases)
    case Nil
    then show ?thesis by simp
  next
    case (snoc ys y)
    obtain fu now where y: "y = (fu, now)" by (cases y)
    show ?thesis
      by (simp add: snoc y deliverAll_snoc contextValue_def deliver_user split: option.splits)
  qed
  then show ?thesis
    by (simp add: handler_defs aux_defs)
qed

text \<open>
  The stale \<open>getDoc\<close> of the run above publishes its own profile; a completed creation
  publishes the created profile; and two events resolved one after the other, a sign-in
  and then a sign-out, leave the session unauthenticated.
\<close>

theorem last_completion_wins_witness:
  "tasks (run (init adminStore) [AuthStateChanged (Some u123), AuthStateChanged None]) 0
     = Some (HandlerGetDoc u123)
   \<and> store (run (init adminStore) [AuthStateChanged (Some u123), AuthStateChanged None])
       (uid u123)
     = Some [''name'' \<mapsto> JStr ''Ana'', ''role'' \<mapsto> JStr ''admin'', ''status'' \<mapsto> JStr ''ativo'']
   \<and> user (run (init adminStore)
        [AuthStateChanged (Some u123), AuthStateChanged None, GetDocSettled 0 None ''t''])
     = Some (mergeUser u123
         [''name'' \<mapsto> JStr ''Ana'', ''role'' \<mapsto> JStr ''admin'', ''status'' \<mapsto> JStr ''ativo''])
   \<and> tasks (run (init Map.empty) [AuthStateChanged (Some u123), GetDocSettled 0 None ''t'']) 0
     = Some (HandlerSetDoc u123 (basicUser u123 ''t''))
   \<and> user (run (init Map.empty)
        [AuthStateChanged (Some u123), GetDocSettled 0 None ''t'', SetDocSettled 0 None])
     = Some (basicUser u123 ''t'')
   \<and> [(Some u123, ''t''), (None, ''t'')] \<noteq> []
   \<and> \<not> isAuthenticated (contextValue
        (deliverAll (init adminStore) [(Some u123, ''t''), (None, ''t'')]))"
  using last_completion_wins
      [of "run (init adminStore) [AuthStateChanged (Some u123), AuthStateChanged None]" 0 u123
        "[''name'' \<mapsto> JStr ''Ana'', ''role'' \<mapsto> JStr ''admin'', ''status'' \<mapsto> JStr ''ativo'']"
        "''t''" _ "[(Some u123, ''t''), (None, ''t'')]"]
    last_completion_wins
      [of "run (init Map.empty) [AuthStateChanged (Some u123), GetDocSettled 0 None ''t'']" 0
        u123 _ _ "basicUser u123 ''t''"]
  by (simp add: init_def handler_defs aux_defs adminStore_def u123_def deliver_def
        contextValue_def)

section \<open>First sign-in\<close>

text \<open>
  Claim C7. For a principal with no document in the store, resolution constructs the
  profile \<open>basicUser\<close>: id the principal's uid, email the provider's email, name the
  provider's display name or, when that is null or empty, the default name, role
  \<open>usuario\<close>, phone and location empty, status \<open>ativo\<close>, createdAt the time of creation.
  When \<open>setDoc\<close> succeeds the profile is stored under the principal's uid and published
  with \<open>isAuthenticated\<close> true, by the callback of \<open>onAuthStateChanged\<close> and by \<open>login\<close>
  alike. The write is an upsert on the key uid: when the callback and \<open>login\<close> both find
  no document and both create it, the store ends with one document under that key, the
  one written last, and no other key is touched.
\<close>

theorem first_sign_in_creates_profile:
  "(tasks st i = Some (HandlerGetDoc u) \<and> store st (uid u) = None \<longrightarrow>
      tasks (run st [GetDocSettled i None now]) i = Some (HandlerSetDoc u (basicUser u now))
    \<and> store (run st [GetDocSettled i None now, SetDocSettled i None])
        = (store st)(uid u \<mapsto> basicUser u now)
    \<and> contextValue (run st [GetDocSettled i None now, SetDocSettled i None])
        = \<lparr>sessionUser = Some (basicUser u now), isAuthenticated = True,
           sessionLoading = False\<rparr>)
   \<and> (tasks st i = Some (LoginGetDoc u) \<and> store st (uid u) = None \<longrightarrow>
      tasks (run st [GetDocSettled i None now]) i = Some (LoginSetDoc u (basicUser u now))
    \<and> store (run st [GetDocSettled i None now, SetDocSettled i None])
        = (store st)(uid u \<mapsto> basicUser u now)
    \<and> contextValue (run st [GetDocSettled i None now, SetDocSettled i None])
        = \<lparr>sessionUser = Some (basicUser u now), isAuthenticated = True,
           sessionLoading = isLoading st\<rparr>
    \<and> snd (step (run st [GetDocSettled i None now]) (SetDocSettled i None))
        = Some (i, Resolved))
   \<and> (tasks st i = Some (HandlerGetDoc u) \<and> tasks st j = Some (LoginGetDoc u) \<and> i \<noteq> j
        \<and> store st (uid u) = None \<longrightarrow>
      store (run st [GetDocSettled i None now, GetDocSettled j None now',
                     SetDocSettled i None, SetDocSettled j None])
        = (store st)(uid u \<mapsto> basicUser u now'))
   \<and> basicUser u now ''id'' = Some (JStr (uid u))
   \<and> basicUser u now ''email'' = Some (emailValue u)
   \<and> basicUser u now ''name'' = Some (nameValue u)
   \<and> basicUser u now ''role'' = Some (JStr ''usuario'')
   \<and> basicUser u now ''phone'' = Some (JStr [])
   \<and> basicUser u now ''location'' = Some (JStr [])
   \<and> basicUser u now ''status'' = Some (JStr ''ativo'')
   \<and> basicUser u now ''createdAt'' = Some (JStr now)
   \<and> (displayName u = Some n \<and> n \<noteq> [] \<longrightarrow> nameValue u = JStr n)
   \<and> (displayName u = None \<or> displayName u = Some [] \<longrightarrow>
        nameValue u = JStr (''Usu'' @ [CHR 0xE1] @ ''rio''))
   \<and> (email u = Some e \<longrightarrow> emailValue u = JStr e)"
proof -
  have h: "tasks st i = Some (HandlerGetDoc u) \<and> store st (uid u) = None \<longrightarrow>
      tasks (run st [GetDocSettled i None now]) i = Some (HandlerSetDoc u (basicUser u now))
    \<and> store (run st [GetDocSettled i None now, SetDocSettled i None])
        = (store st)(uid u \<mapsto> basicUser u now)
    \<and> contextValue (run st [GetDocSettled i None now, SetDocSettled i None])
        = \<lparr>sessionUser = Some (basicUser u now), isAuthenticated = True,
           sessionLoading = False\<rparr>"
    by (simp add: handler_defs aux_defs contextValue_def setDocMerge_def)
  have l: "tasks st i = Some (LoginGetDoc u) \<and> store st (uid u) = None \<longrightarrow>
      tasks (run st [GetDocSettled i None now]) i = Some (LoginSetDoc u (basicUser u now))
    \<and> store (run st [GetDocSettled i None now, SetDocSettled i None])
        = (store st)(uid u \<mapsto> basicUser u now)
    \<and> contextValue (run st [GetDocSettled i None now, SetDocSettled i None])
        = \<lparr>sessionUser = Some (basicUser u now), isAuthenticated = True,
           sessionLoading = isLoading st\<rparr>
    \<and> snd (step (run st [GetDocSettled i None now]) (SetDocSettled i None))
        = Some (i, Resolved)"
    by (simp add: login_defs aux_defs contextValue_def setDocMerge_def)
  have d: "tasks st i = Some (HandlerGetDoc u) \<and> tasks st j = Some (LoginGetDoc u) \<and> i \<noteq> j
        \<and> store st (uid u) = None \<longrightarrow>
      store (run st [GetDocSettled i None now, GetDocSettled j None now',
                     SetDocSettled i None, SetDocSettled j None])
        = (store st)(uid u \<mapsto> basicUser u now')"
    by (simp add: handler_defs login_defs aux_defs setDocMerge_def basicUser_add)
  have f: "basicUser u now ''id'' = Some (JStr (uid u))
   \<and> basicUser u now ''email'' = Some (emailValue u)
   \<and> basicUser u now ''name'' = Some (nameValue u)
   \<and> basicUser u now ''role'' = Some (JStr ''usuario'')
   \<and> basicUser u now ''phone'' = Some (JStr [])
   \<and> basicUser u now ''location'' = Some (JStr [])
   \<and> basicUser u now ''status'' = Some (JStr ''ativo'')
   \<and> basicUser u now ''createdAt'' = Some (JStr now)"
    by (simp add: basicUser_def)
  have n: "(displayName u = Some n \<and> n \<noteq> [] \<longrightarrow> nameValue u = JStr n)
   \<and> (displayName u = None \<or> displayName u = Some [] \<longrightarrow>
        nameValue u = JStr (''Usu'' @ [CHR 0xE1] @ ''rio''))
   \<and> (email u = Some e \<longrightarrow> emailValue u = JStr e)"
    by (auto simp: nameValue_def emailValue_def)
  show ?thesis using h l d f n by blast
qed

text \<open>
  The principal \<open>u123\<close> signs in for the first time over an empty store: through the
  provider's event; through \<open>login\<close>; and through \<open>login\<close> with the provider's event
  arriving while \<open>login\<close> reads the store, so that both create the document. A principal
  with no display name is named by the default.
\<close>

theorem first_sign_in_creates_profile_witness:
  "tasks (run (init Map.empty) [AuthStateChanged (Some u123)]) 0 = Some (HandlerGetDoc u123)
   \<and> store (run (init Map.empty) [AuthStateChanged (Some u123)]) (uid u123) = None
   \<and> store (run (run (init Map.empty) [AuthStateChanged (Some u123)])
        [GetDocSettled 0 None ''2024-03-15'', SetDocSettled 0 None])
     = (store (run (init Map.empty) [AuthStateChanged (Some u123)]))
         (uid u123 \<mapsto> basicUser u123 ''2024-03-15'')
   \<and> contextValue (run (run (init Map.empty) [AuthStateChanged (Some u123)])
        [GetDocSettled 0 None ''2024-03-15'', SetDocSettled 0 None])
     = \<lparr>sessionUser = Some (basicUser u123 ''2024-03-15''), isAuthenticated = True,
        sessionLoading = False\<rparr>
   \<and> tasks (run (init Map.empty) [LoginCalled ''ana@x.com'' ''Secret123'',
        SignInSettled 0 (Inr u123), AuthStateChanged (Some u123)]) 0 = Some (LoginGetDoc u123)
   \<and> tasks (run (init Map.empty) [LoginCalled ''ana@x.com'' ''Secret123'',
        SignInSettled 0 (Inr u123), AuthStateChanged (Some u123)]) 1 = Some (HandlerGetDoc u123)
   \<and> store (run (init Map.empty) [LoginCalled ''ana@x.com'' ''Secret123'',
        SignInSettled 0 (Inr u123), AuthStateChanged (Some u123)]) (uid u123) = None
   \<and> snd (step (run (run (init Map.empty) [LoginCalled ''ana@x.com'' ''Secret123'',
        SignInSettled 0 (Inr u123), AuthStateChanged (Some u123)])
        [GetDocSettled 0 None ''2024-03-15'']) (SetDocSettled 0 None)) = Some (0, Resolved)
   \<and> store (run (run (init Map.empty) [LoginCalled ''ana@x.com'' ''Secret123'',
        SignInSettled 0 (Inr u123), AuthStateChanged (Some u123)])
        [GetDocSettled 1 None ''2024-03-15'', GetDocSettled 0 None ''2024-03-16'',
         SetDocSettled 1 None, SetDocSettled 0 None])
     = (store (run (init Map.empty) [LoginCalled ''ana@x.com'' ''Secret123'',
        SignInSettled 0 (Inr u123), AuthStateChanged (Some u123)]))
         (uid u123 \<mapsto> basicUser u123 ''2024-03-16'')
   \<and> displayName u123 = Some ''Ana'' \<and> nameValue u123 = JStr ''Ana''
   \<and> email u123 = Some ''ana@x.com'' \<and> emailValue u123 = JStr ''ana@x.com''
   \<and> displayName (u123\<lparr>displayName := None\<rparr>) = None
   \<and> nameValue (u123\<lparr>displayName := None\<rparr>) = JStr (''Usu'' @ [CHR 0xE1] @ ''rio'')"
proof -
  let ?a = "run (init Map.empty) [AuthStateChanged (Some u123)]"
  let ?b = "run (init Map.empty) [LoginCalled ''ana@x.com'' ''Secret123'',
        SignInSettled 0 (Inr u123), AuthStateChanged (Some u123)]"
  have a: "tasks ?a 0 = Some (HandlerGetDoc u123) \<and> store ?a (uid u123) = None"
    by (simp add: init_def authStateChanged_def spawn_def)
  have b0: "tasks ?b 0 = Some (LoginGetDoc u123)"
    and b1: "tasks ?b 1 = Some (HandlerGetDoc u123)"
    and bs: "store ?b (uid u123) = None"
    by (simp_all add: init_def authStateChanged_def loginSignIn_def spawn_def)
  have c: "displayName u123 = Some ''Ana'' \<and> ''Ana'' \<noteq> []"
    and e: "email u123 = Some ''ana@x.com''"
    and n: "displayName (u123\<lparr>displayName := None\<rparr>) = None
      \<or> displayName (u123\<lparr>displayName := None\<rparr>) = Some []"
    by (simp_all add: u123_def)
  have d: "tasks ?b 1 = Some (HandlerGetDoc u123) \<and> tasks ?b 0 = Some (LoginGetDoc u123)
      \<and> (1::nat) \<noteq> 0 \<and> store ?b (uid u123) = None"
    using b0 b1 bs by simp
  note T = first_sign_in_creates_profile
      [of ?a 0 u123 "''2024-03-15''" 0 "''2024-03-15''" "''Ana''" "''ana@x.com''"]
  note L = first_sign_in_creates_profile
      [of ?b 0 u123 "''2024-03-15''" 0 "''2024-03-15''" "''Ana''" "''ana@x.com''"]
  note D = first_sign_in_creates_profile
      [of ?b 1 u123 "''2024-03-15''" 0 "''2024-03-16''" "''Ana''" "''ana@x.com''"]
  note N = first_sign_in_creates_profile
      [of ?a 0 "u123\<lparr>displayName := None\<rparr>" "''2024-03-15''" 0 "''2024-03-15''" "''Ana''"
        "''ana@x.com''"]
  note r1 = mp [OF conjunct1 [OF T] a]
  note r2 = mp [OF conjunct1 [OF conjunct2 [OF L]] conjI [OF b0 bs]]
  note r3 = mp [OF conjunct1 [OF conjunct2 [OF conjunct2 [OF D]]] d]
  have r4: "nameValue u123 = JStr ''Ana''" using T c by blast
  have r5: "emailValue u123 = JStr ''ana@x.com''" using T e by blast
  have r6: "nameValue (u123\<lparr>displayName := None\<rparr>) = JStr (''Usu'' @ [CHR 0xE1] @ ''rio'')"
    using N n by blast
  have r7: "displayName (u123\<lparr>displayName := None\<rparr>) = None" by simp
  show ?thesis
    using a b0 b1 bs c e r1 r2 r3 r4 r5 r6 r7 by blast
qed

section \<open>Logout\<close>

text \<open>
  Claim C8. A call of \<open>logout\<close> changes nothing until the provider's \<open>signOut\<close> settles.
  When \<open>signOut\<close> succeeds, \<open>user\<close> becomes null, an unauthenticated session is published
  and the call resolves. When \<open>signOut\<close> fails, \<open>user\<close>, \<open>isLoading\<close>, the store and so the
  published session stay as they were, and the call rejects with the generic logout
  error.
\<close>

theorem logout_outcome:
  "tasks (fst (step st LogoutCalled)) (nextId st) = Some LogoutSignOut
   \<and> contextValue (fst (step st LogoutCalled)) = contextValue st
   \<and> (tasks st i = Some LogoutSignOut \<longrightarrow>
        user (fst (step st (SignOutSettled i None))) = None
      \<and> contextValue (fst (step st (SignOutSettled i None)))
          = \<lparr>sessionUser = None, isAuthenticated = False, sessionLoading = isLoading st\<rparr>
      \<and> snd (step st (SignOutSettled i None)) = Some (i, Resolved)
      \<and> user (fst (step st (SignOutSettled i (Some e)))) = user st
      \<and> isLoading (fst (step st (SignOutSettled i (Some e)))) = isLoading st
      \<and> store (fst (step st (SignOutSettled i (Some e)))) = store st
      \<and> contextValue (fst (step st (SignOutSettled i (Some e)))) = contextValue st
      \<and> snd (step st (SignOutSettled i (Some e)))
          = Some (i, Rejected (Uncoded ''Erro ao fazer logout. Tente novamente'')))"
  by (simp add: logoutSignOut_def aux_defs contextValue_def)

text \<open>
  The administrator \<open>u123\<close> is signed in and calls \<open>logout\<close>: a successful \<open>signOut\<close>
  publishes the unauthenticated session, a failed one leaves \<open>u123\<close> signed in and
  rejects the call.
\<close>

theorem logout_outcome_witness:
  "tasks (run (init adminStore)
        [AuthStateChanged (Some u123), GetDocSettled 0 None ''t'', LogoutCalled]) 1
     = Some LogoutSignOut
   \<and> contextValue (run (init adminStore)
        [AuthStateChanged (Some u123), GetDocSettled 0 None ''t'', LogoutCalled,
         SignOutSettled 1 None])
     = \<lparr>sessionUser = None, isAuthenticated = False, sessionLoading = False\<rparr>
   \<and> isAuthenticated (contextValue (run (init adminStore)
        [AuthStateChanged (Some u123), GetDocSettled 0 None ''t'', LogoutCalled,
         SignOutSettled 1 (Some (Coded ''auth/network-request-failed''))]))
   \<and> snd (step (run (init adminStore)
        [AuthStateChanged (Some u123), GetDocSettled 0 None ''t'', LogoutCalled])
        (SignOutSettled 1 (Some (Coded ''auth/network-request-failed''))))
     = Some (1, Rejected (Uncoded ''Erro ao fazer logout. Tente novamente''))"
  using logout_outcome
      [of "run (init adminStore)
        [AuthStateChanged (Some u123), GetDocSettled 0 None ''t'', LogoutCalled]" 1
        "Coded ''auth/network-request-failed''"]
  by (simp add: init_def handler_defs aux_defs contextValue_def adminStore_def u123_def
        run_append)

section \<open>Errors in the provider's callback\<close>

text \<open>
  Claim C9. When \<open>getDoc\<close> or the \<open>setDoc\<close> of \<open>createUserDocument\<close> fails in a run of the
  callback of \<open>onAuthStateChanged\<close>, the run ends with \<open>user\<close> null and \<open>isLoading\<close> false, so
  the unauthenticated, loaded session is published; the error is printed to the console
  and no caller receives it.
\<close>

theorem handler_error_falls_back:
  "(tasks st i = Some (HandlerGetDoc u) \<longrightarrow>
      user (fst (step st (GetDocSettled i (Some e) now))) = None
    \<and> isLoading (fst (step st (GetDocSettled i (Some e) now))) = False
    \<and> contextValue (fst (step st (GetDocSettled i (Some e) now)))
        = \<lparr>sessionUser = None, isAuthenticated = False, sessionLoading = False\<rparr>
    \<and> console (fst (step st (GetDocSettled i (Some e) now)))
        = console st @ [(''Error in auth state change:'', e)]
    \<and> snd (step st (GetDocSettled i (Some e) now)) = None
    \<and> tasks (fst (step st (GetDocSettled i (Some e) now))) i = None)
   \<and> (tasks st i = Some (HandlerSetDoc u b) \<longrightarrow>
      user (fst (step st (SetDocSettled i (Some e)))) = None
    \<and> isLoading (fst (step st (SetDocSettled i (Some e)))) = False
    \<and> contextValue (fst (step st (SetDocSettled i (Some e))))
        = \<lparr>sessionUser = None, isAuthenticated = False, sessionLoading = False\<rparr>
    \<and> console (fst (step st (SetDocSettled i (Some e))))
        = console st @ [(''Error creating user document:'', e),
                        (''Error in auth state change:'', e)]
    \<and> snd (step st (SetDocSettled i (Some e))) = None
    \<and> tasks (fst (step st (SetDocSettled i (Some e)))) i = None)"
  by (simp add: handler_defs aux_defs contextValue_def)

text \<open>
  On a fresh coordinator the store is unavailable when \<open>u123\<close> signs in, at the read and
  at the write.
\<close>

theorem handler_error_falls_back_witness:
  "tasks (run (init Map.empty) [AuthStateChanged (Some u123)]) 0 = Some (HandlerGetDoc u123)
   \<and> contextValue (run (init Map.empty)
        [AuthStateChanged (Some u123), GetDocSettled 0 (Some (Coded ''unavailable'')) ''t''])
      = \<lparr>sessionUser = None, isAuthenticated = False, sessionLoading = False\<rparr>
   \<and> tasks (run (init Map.empty) [AuthStateChanged (Some u123), GetDocSettled 0 None ''t'']) 0
      = Some (HandlerSetDoc u123 (basicUser u123 ''t''))
   \<and> contextValue (run (init Map.empty)
        [AuthStateChanged (Some u123), GetDocSettled 0 None ''t'',
         SetDocSettled 0 (Some (Coded ''unavailable''))])
      = \<lparr>sessionUser = None, isAuthenticated = False, sessionLoading = False\<rparr>
   \<and> console (run (init Map.empty)
        [AuthStateChanged (Some u123), GetDocSettled 0 None ''t'',
         SetDocSettled 0 (Some (Coded ''unavailable''))])
      = [(''Error creating user document:'', Coded ''unavailable''),
         (''Error in auth state change:'', Coded ''unavailable'')]"
  using handler_error_falls_back
      [of "run (init Map.empty) [AuthStateChanged (Some u123)]" 0 u123
        "Coded ''unavailable''" "''t''"]
    handler_error_falls_back
      [of "run (init Map.empty) [AuthStateChanged (Some u123), GetDocSettled 0 None ''t'']" 0
        u123 "Coded ''unavailable''" _ "basicUser u123 ''t''"]
  by (simp add: init_def authStateChanged_def handlerGetDoc_def spawn_def u123_def)

section \<open>The stored password field\<close>

text \<open>
  Claim C10. The document \<open>createUserDocument\<close> writes has the nine fields of \<open>basicUser\<close>,
  among them \<open>password\<close> with the empty string, and a first sign-in does write it: after
  the callback of \<open>onAuthStateChanged\<close> or \<open>login\<close> finds no document and \<open>setDoc\<close>
  succeeds, the store holds \<open>basicUser\<close> under the principal's uid, and a successful
  \<open>setDoc\<close> of a suspended \<open>createUserDocument\<close> merges its \<open>basicUser\<close> into the store,
  so that the document's \<open>password\<close> is the empty string. In every state the coordinator
  reaches, a step that changes a document of the store is such a \<open>setDoc\<close>. The password
  given to \<open>login\<close> is never written: replacing the passwords of all calls of \<open>login\<close> in
  a run by any others leads to the same state, but for the password a \<open>login\<close> suspended at
  \<open>signInWithEmailAndPassword\<close> holds; the store, the published user and the console
  are the same.
\<close>

theorem password_never_stored:
  "basicUser u now ''password'' = Some (JStr [])
   \<and> dom (basicUser u now) = {''id'', ''email'', ''name'', ''role'', ''phone'', ''location'',
        ''createdAt'', ''status'', ''password''}
   \<and> (tasks st i = Some (HandlerGetDoc u) \<and> store st (uid u) = None \<longrightarrow>
        store (run st [GetDocSettled i None now, SetDocSettled i None]) (uid u)
          = Some (basicUser u now))
   \<and> (tasks st i = Some (LoginGetDoc u) \<and> store st (uid u) = None \<longrightarrow>
        store (run st [GetDocSettled i None now, SetDocSettled i None]) (uid u)
          = Some (basicUser u now))
   \<and> (tasks st i = Some (HandlerSetDoc u (basicUser u now))
        \<or> tasks st i = Some (LoginSetDoc u (basicUser u now)) \<longrightarrow>
        store (fst (step st (SetDocSettled i None)))
          = setDocMerge (uid u) (basicUser u now) (store st)
      \<and> (\<exists>d. store (fst (step st (SetDocSettled i None))) (uid u) = Some d
           \<and> d ''password'' = Some (JStr [])))
   \<and> (store (fst (step (run (init s) evs) ev)) k \<noteq> store (run (init s) evs) k \<longrightarrow>
        (\<exists>j w t.
           (tasks (run (init s) evs) j = Some (HandlerSetDoc w (basicUser w t))
            \<or> tasks (run (init s) evs) j = Some (LoginSetDoc w (basicUser w t)))
           \<and> ev = SetDocSettled j None \<and> k = uid w
           \<and> store (fst (step (run (init s) evs) ev))
               = setDocMerge (uid w) (basicUser w t) (store (run (init s) evs)))
      \<and> (\<exists>d. store (fst (step (run (init s) evs) ev)) k = Some d
           \<and> d ''password'' = Some (JStr [])))
   \<and> run (init s) (map (withPassword f) evs) = tasksWithPassword f (run (init s) evs)
   \<and> store (run (init s) (map (withPassword f) evs)) = store (run (init s) evs)
   \<and> user (run (init s) (map (withPassword f) evs)) = user (run (init s) evs)
   \<and> console (run (init s) (map (withPassword f) evs)) = console (run (init s) evs)"
proof -
  let ?st = "run (init s) evs"
  have inv: "\<forall>i u b. tasks ?st i = Some (HandlerSetDoc u b) \<or> tasks ?st i = Some (LoginSetDoc u b)
             \<longrightarrow> (\<exists>now. b = basicUser u now)"
    by (rule creation_tasks_run) (simp add: init_def)
  have a: "basicUser u now ''password'' = Some (JStr [])"
    by (simp add: basicUser_def)
  have b: "dom (basicUser u now) = {''id'', ''email'', ''name'', ''role'', ''phone'',
        ''location'', ''createdAt'', ''status'', ''password''}"
    unfolding basicUser_def by (simp add: insert_commute)
  have h: "tasks st i = Some (HandlerGetDoc u) \<and> store st (uid u) = None \<longrightarrow>
        store (run st [GetDocSettled i None now, SetDocSettled i None]) (uid u)
          = Some (basicUser u now)"
    by (simp add: handler_defs aux_defs setDocMerge_def)
  have l: "tasks st i = Some (LoginGetDoc u) \<and> store st (uid u) = None \<longrightarrow>
        store (run st [GetDocSettled i None now, SetDocSettled i None]) (uid u)
          = Some (basicUser u now)"
    by (simp add: login_defs aux_defs setDocMerge_def)
  have w: "tasks st i = Some (HandlerSetDoc u (basicUser u now))
        \<or> tasks st i = Some (LoginSetDoc u (basicUser u now)) \<longrightarrow>
        store (fst (step st (SetDocSettled i None)))
          = setDocMerge (uid u) (basicUser u now) (store st)
      \<and> (\<exists>d. store (fst (step st (SetDocSettled i None))) (uid u) = Some d
           \<and> d ''password'' = Some (JStr []))"
    using password_after_merge [of "uid u" u now "store st"]
    by (auto simp: handler_defs login_defs aux_defs)
  have c: "(\<exists>j w t.
           (tasks ?st j = Some (HandlerSetDoc w (basicUser w t))
            \<or> tasks ?st j = Some (LoginSetDoc w (basicUser w t)))
           \<and> ev = SetDocSettled j None \<and> k = uid w
           \<and> store (fst (step ?st ev)) = setDocMerge (uid w) (basicUser w t) (store ?st))
      \<and> (\<exists>d. store (fst (step ?st ev)) k = Some d \<and> d ''password'' = Some (JStr []))"
    if ch: "store (fst (step ?st ev)) k \<noteq> store ?st k"
  proof -
    from ch have ne: "store (fst (step ?st ev)) \<noteq> store ?st" by metis
    with store_write_step [of ?st ev] obtain j w b where
      t: "tasks ?st j = Some (HandlerSetDoc w b) \<or> tasks ?st j = Some (LoginSetDoc w b)"
      and e: "ev = SetDocSettled j None"
      and s: "store (fst (step ?st ev)) = setDocMerge (uid w) b (store ?st)"
      by blast
    from inv t obtain t' where b: "b = basicUser w t'" by blast
    have k: "k = uid w"
      using ch setDocMerge_other [of k "uid w" b "store ?st"] unfolding s by blast
    have d: "\<exists>d. store (fst (step ?st ev)) k = Some d \<and> d ''password'' = Some (JStr [])"
      using password_after_merge [of "uid w" w t' "store ?st"] unfolding s b k by blast
    show ?thesis
      using t e s d unfolding b k by blast
  qed
  have r: "run (init s) (map (withPassword f) evs) = tasksWithPassword f (run (init s) evs)"
    using run_withPassword [of f "init s" evs] by (simp add: init_withPassword)
  have p: "store (run (init s) (map (withPassword f) evs)) = store (run (init s) evs)"
    "user (run (init s) (map (withPassword f) evs)) = user (run (init s) evs)"
    "console (run (init s) (map (withPassword f) evs)) = console (run (init s) evs)"
    by (simp_all add: r tasksWithPassword_def)
  show ?thesis using a b h l w c r p by blast
qed

text \<open>
  The principal \<open>u123\<close>, with no document, signs in through the provider's event and
  through \<open>login\<close> with the password \<open>Secret123\<close>: each path writes the document \<open>u123\<close>
  with an empty \<open>password\<close>, and the run of \<open>login\<close> with the password erased ends with
  the same store.
\<close>

theorem password_never_stored_witness:
  "tasks (run (init Map.empty) [AuthStateChanged (Some u123)]) 0 = Some (HandlerGetDoc u123)
   \<and> store (run (init Map.empty) [AuthStateChanged (Some u123)]) (uid u123) = None
   \<and> store (run (run (init Map.empty) [AuthStateChanged (Some u123)])
        [GetDocSettled 0 None ''2024-03-15'', SetDocSettled 0 None]) (uid u123)
       = Some (basicUser u123 ''2024-03-15'')
   \<and> tasks (run (init Map.empty)
        [LoginCalled ''ana@x.com'' ''Secret123'', SignInSettled 0 (Inr u123)]) 0
       = Some (LoginGetDoc u123)
   \<and> store (run (run (init Map.empty)
        [LoginCalled ''ana@x.com'' ''Secret123'', SignInSettled 0 (Inr u123)])
        [GetDocSettled 0 None ''2024-03-15'', SetDocSettled 0 None]) (uid u123)
       = Some (basicUser u123 ''2024-03-15'')
   \<and> tasks (run (init Map.empty)
        [AuthStateChanged (Some u123), GetDocSettled 0 None ''2024-03-15'']) 0
       = Some (HandlerSetDoc u123 (basicUser u123 ''2024-03-15''))
   \<and> (\<exists>d. store (fst (step (run (init Map.empty)
        [AuthStateChanged (Some u123), GetDocSettled 0 None ''2024-03-15''])
        (SetDocSettled 0 None))) (uid u123) = Some d \<and> d ''password'' = Some (JStr []))
   \<and> tasks (run (init Map.empty)
        [LoginCalled ''ana@x.com'' ''Secret123'', SignInSettled 0 (Inr u123),
         GetDocSettled 0 None ''2024-03-15'']) 0
       = Some (LoginSetDoc u123 (basicUser u123 ''2024-03-15''))
   \<and> store (fst (step (run (init Map.empty)
        [LoginCalled ''ana@x.com'' ''Secret123'', SignInSettled 0 (Inr u123),
         GetDocSettled 0 None ''2024-03-15'']) (SetDocSettled 0 None))) ''u123''
       \<noteq> store (run (init Map.empty)
        [LoginCalled ''ana@x.com'' ''Secret123'', SignInSettled 0 (Inr u123),
         GetDocSettled 0 None ''2024-03-15'']) ''u123''
   \<and> (\<exists>d. store (fst (step (run (init Map.empty)
        [LoginCalled ''ana@x.com'' ''Secret123'', SignInSettled 0 (Inr u123),
         GetDocSettled 0 None ''2024-03-15'']) (SetDocSettled 0 None))) ''u123'' = Some d
        \<and> d ''password'' = Some (JStr []))
   \<and> map (withPassword (\<lambda>pw. []))
        [LoginCalled ''ana@x.com'' ''Secret123'', SignInSettled 0 (Inr u123),
         GetDocSettled 0 None ''2024-03-15'', SetDocSettled 0 None]
       = [LoginCalled ''ana@x.com'' [], SignInSettled 0 (Inr u123),
          GetDocSettled 0 None ''2024-03-15'', SetDocSettled 0 None]
   \<and> store (run (init Map.empty)
        (map (withPassword (\<lambda>pw. []))
          [LoginCalled ''ana@x.com'' ''Secret123'', SignInSettled 0 (Inr u123),
           GetDocSettled 0 None ''2024-03-15'', SetDocSettled 0 None]))
       = store (run (init Map.empty)
          [LoginCalled ''ana@x.com'' ''Secret123'', SignInSettled 0 (Inr u123),
           GetDocSettled 0 None ''2024-03-15'', SetDocSettled 0 None])"
proof -
  let ?t = "''2024-03-15''"
  let ?a = "run (init Map.empty) [AuthStateChanged (Some u123)]"
  let ?b = "run (init Map.empty)
        [LoginCalled ''ana@x.com'' ''Secret123'', SignInSettled 0 (Inr u123)]"
  let ?a' = "run (init Map.empty) [AuthStateChanged (Some u123), GetDocSettled 0 None ?t]"
  let ?evs = "[LoginCalled ''ana@x.com'' ''Secret123'', SignInSettled 0 (Inr u123),
         GetDocSettled 0 None ?t]"
  let ?all = "[LoginCalled ''ana@x.com'' ''Secret123'', SignInSettled 0 (Inr u123),
         GetDocSettled 0 None ?t, SetDocSettled 0 None]"
  have a: "tasks ?a 0 = Some (HandlerGetDoc u123)" and as: "store ?a (uid u123) = None"
    by (simp_all add: init_def authStateChanged_def spawn_def)
  have b: "tasks ?b 0 = Some (LoginGetDoc u123)" and bs: "store ?b (uid u123) = None"
    by (simp_all add: init_def loginSignIn_def spawn_def)
  have a': "tasks ?a' 0 = Some (HandlerSetDoc u123 (basicUser u123 ?t))"
    by (simp add: init_def authStateChanged_def handlerGetDoc_def spawn_def)
  have b': "tasks (run (init Map.empty) ?evs) 0 = Some (LoginSetDoc u123 (basicUser u123 ?t))"
    by (simp add: init_def loginSignIn_def loginGetDoc_def spawn_def)
  have ch: "store (fst (step (run (init Map.empty) ?evs) (SetDocSettled 0 None))) ''u123''
      \<noteq> store (run (init Map.empty) ?evs) ''u123''"
    by (simp add: init_def login_defs aux_defs u123_def setDocMerge_def)
  have m: "map (withPassword (\<lambda>pw. [])) ?all
       = [LoginCalled ''ana@x.com'' [], SignInSettled 0 (Inr u123),
          GetDocSettled 0 None ?t, SetDocSettled 0 None]"
    by (simp add: withPassword_def)
  note A = password_never_stored
      [of u123 ?t ?a 0 Map.empty ?evs "SetDocSettled 0 None" "''u123''" "\<lambda>pw. []"]
  note B = password_never_stored
      [of u123 ?t ?b 0 Map.empty ?evs "SetDocSettled 0 None" "''u123''" "\<lambda>pw. []"]
  note C = password_never_stored
      [of u123 ?t ?a' 0 Map.empty ?all "SetDocSettled 0 None" "''u123''" "\<lambda>pw. []"]
  have r1: "store (run ?a [GetDocSettled 0 None ?t, SetDocSettled 0 None]) (uid u123)
       = Some (basicUser u123 ?t)"
    using A a as by blast
  have r2: "store (run ?b [GetDocSettled 0 None ?t, SetDocSettled 0 None]) (uid u123)
       = Some (basicUser u123 ?t)"
    using B b bs by blast
  have r3: "\<exists>d. store (fst (step ?a' (SetDocSettled 0 None))) (uid u123) = Some d
       \<and> d ''password'' = Some (JStr [])"
    using C a' by blast
  have r4: "\<exists>d. store (fst (step (run (init Map.empty) ?evs) (SetDocSettled 0 None))) ''u123''
       = Some d \<and> d ''password'' = Some (JStr [])"
    using A ch by blast
  have r5: "store (run (init Map.empty) (map (withPassword (\<lambda>pw. [])) ?all))
       = store (run (init Map.empty) ?all)"
    using C by blast
  show ?thesis
    using a as b a' b' ch m r1 r2 r3 r4 r5 by blast
qed

end
